theory Spec2Isabelle
  imports Main "HOL-Library.Sublist"
begin

section \<open>Python built-ins the script relies on\<close>

text \<open>
  The script \<^verbatim>\<open>Scripts/mcp_oauth_test_server.py\<close> formats its port with \<^verbatim>\<open>str\<close>
  (through an f-string and \<^verbatim>\<open>str(port).encode()\<close>) and reads it with \<^verbatim>\<open>int\<close>.
  Python integers are unbounded, so they are \<^typ>\<open>int\<close> here. The bytes of a connection,
  which the base class decodes as ISO-8859-1, and the text the script builds itself are
  \<^typ>\<open>string\<close>, one \<^typ>\<open>char\<close> per code point below 256. A command-line argument is a
  Python \<^verbatim>\<open>str\<close> of arbitrary code points: a list of naturals. Exceptions are values of
  \<open>error\<close>.
\<close>

datatype error = ValueError | OverflowError | PermissionError | AddressInUse

type_synonym pystr = "nat list"

definition ustr :: "string \<Rightarrow> pystr" where
  "ustr s = map of_char s"

definition decimal_digits :: string where
  "decimal_digits = ''0123456789''"

function str_nat :: "nat \<Rightarrow> string" where
  "str_nat n =
     (if n < 10 then [decimal_digits ! n]
      else str_nat (n div 10) @ [decimal_digits ! (n mod 10)])"
  by pat_completeness auto
termination
  by (relation "measure (\<lambda>n. n)") auto

declare str_nat.simps [simp del]

text \<open>\<^verbatim>\<open>str(i)\<close> for an integer: decimal digits, no leading zeros, a minus sign first.\<close>

definition str_int :: "int \<Rightarrow> string" where
  "str_int i = (if i < 0 then CHR ''-'' # str_nat (nat (- i)) else str_nat (nat i))"

text \<open>
  \<^verbatim>\<open>int(s)\<close> for a \<^verbatim>\<open>str\<close>, base ten, as CPython 3.11 does it. Code points from 127
  on are first mapped to a space when they are Unicode white space and to an ASCII digit
  when they are decimal digits (category Nd of Unicode 14.0: 66 runs of ten code points,
  listed by their zeros); any other one makes the text invalid. Then white space around
  the literal is dropped (among the ASCII characters only tab, line feed, vertical tab,
  form feed, carriage return and space count), one sign may lead, the digits may be
  grouped by single underscores, and a literal of more than
  \<^verbatim>\<open>sys.int_max_str_digits\<close> digits (4300 unless configured) is refused. Every
  refusal is a \<^verbatim>\<open>ValueError\<close>.
\<close>

definition unicode_spaces :: "nat list" where
  "unicode_spaces =
     [133, 160, 5760, 8192, 8193, 8194, 8195, 8196, 8197, 8198, 8199, 8200, 8201, 8202,
      8232, 8233, 8239, 8287, 12288]"

definition int_isspace :: "nat \<Rightarrow> bool" where
  "int_isspace c = (c \<in> set [9, 10, 11, 12, 13, 32] \<or> c \<in> set unicode_spaces)"

definition decimal_zeros :: "nat list" where
  "decimal_zeros =
     [48, 1632, 1776, 1984, 2406, 2534, 2662, 2790, 2918, 3046, 3174, 3302, 3430, 3558,
      3664, 3792, 3872, 4160, 4240, 6112, 6160, 6470, 6608, 6784, 6800, 6992, 7088, 7232,
      7248, 42528, 43216, 43264, 43472, 43504, 43600, 44016, 65296, 66720, 68912, 69734,
      69872, 69942, 70096, 70384, 70736, 70864, 71248, 71360, 71472, 71904, 72016, 72784,
      73040, 73120, 92768, 92864, 93008, 120782, 120792, 120802, 120812, 120822, 123200,
      123632, 125264, 130032]"

definition decimal_value :: "nat \<Rightarrow> nat option" where
  "decimal_value c =
     map_option (\<lambda>z. c - z) (find (\<lambda>z. z \<le> c \<and> c < z + 10) decimal_zeros)"

definition py_strip :: "pystr \<Rightarrow> pystr" where
  "py_strip s = rev (dropWhile int_isspace (rev (dropWhile int_isspace s)))"

text \<open>The flag says whether the character before was a digit: an underscore (code point
  95) needs a digit on each side.\<close>

fun scan_digits :: "bool \<Rightarrow> nat \<Rightarrow> pystr \<Rightarrow> nat option" where
  "scan_digits prev acc [] = (if prev then Some acc else None)"
| "scan_digits prev acc (c # cs) =
     (case decimal_value c of
        Some d \<Rightarrow> scan_digits True (10 * acc + d) cs
      | None \<Rightarrow> if c = 95 \<and> prev then scan_digits False acc cs else None)"

definition int_max_str_digits :: nat where
  "int_max_str_digits = 4300"

text \<open>A leading minus (45) or plus (43).\<close>

definition split_sign :: "pystr \<Rightarrow> bool \<times> pystr" where
  "split_sign t =
     (case t of
        [] \<Rightarrow> (False, t)
      | c # cs \<Rightarrow>
          if c = 45 then (True, cs)
          else if c = 43 then (False, cs)
          else (False, t))"

definition py_int :: "pystr \<Rightarrow> error + int" where
  "py_int s =
     (let (neg, body) = split_sign (py_strip s) in
      case scan_digits False 0 body of
        None \<Rightarrow> Inl ValueError
      | Some n \<Rightarrow>
          if int_max_str_digits < length (filter (\<lambda>c. decimal_value c \<noteq> None) body)
          then Inl ValueError
          else Inr (if neg then - int n else int n))"

text \<open>
  \<^verbatim>\<open>s.split()\<close> cuts at runs of white space; on ISO-8859-1 text \<^verbatim>\<open>str.isspace\<close>
  holds for the twelve characters below. \<^verbatim>\<open>s.split(sep)\<close> cuts at every \<open>sep\<close>.
  \<^verbatim>\<open>s.isdigit()\<close> holds for a non-empty text of digits, the superscripts two, three and
  one included.
\<close>

definition str_isspace :: "char \<Rightarrow> bool" where
  "str_isspace c =
     (c \<in> set [CHR 0x09, CHR 0x0A, CHR 0x0B, CHR 0x0C, CHR 0x0D, CHR 0x1C, CHR 0x1D,
                CHR 0x1E, CHR 0x1F, CHR 0x20, CHR 0x85, CHR 0xA0])"

fun split_ws :: "string \<Rightarrow> string \<Rightarrow> string list" where
  "split_ws w [] = (if w = [] then [] else [w])"
| "split_ws w (c # cs) =
     (if str_isspace c then (if w = [] then [] else [w]) @ split_ws [] cs
      else split_ws (w @ [c]) cs)"

definition py_split :: "string \<Rightarrow> string list" where
  "py_split s = split_ws [] s"

fun split_at :: "char \<Rightarrow> string \<Rightarrow> string \<Rightarrow> string list" where
  "split_at sep w [] = [w]"
| "split_at sep w (c # cs) =
     (if c = sep then w # split_at sep [] cs else split_at sep (w @ [c]) cs)"

definition str_isdigit :: "string \<Rightarrow> bool" where
  "str_isdigit s =
     (s \<noteq> [] \<and> (\<forall>c \<in> set s. c \<in> set (decimal_digits @ [CHR 0xB2, CHR 0xB3, CHR 0xB9])))"

text \<open>\<^verbatim>\<open>s.rstrip('\r\n')\<close> drops the carriage returns and line feeds at the end.\<close>

definition rstrip_crlf :: "string \<Rightarrow> string" where
  "rstrip_crlf s = rev (dropWhile (\<lambda>c. c = CHR 0x0D \<or> c = CHR 0x0A) (rev s))"

section \<open>The handler\<close>

text \<open>
  \<^verbatim>\<open>self.server.server_address\<close> is the pair of host and bound port. Of a request the
  handler sees the method (\<^verbatim>\<open>self.command\<close>), the request target (\<^verbatim>\<open>self.path\<close>),
  the header fields and the unread body (\<^verbatim>\<open>self.rfile\<close>).
\<close>

record http_server =
  server_address :: "string \<times> int"

record request =
  command :: string
  path :: string
  req_headers :: "(string \<times> string) list"
  rfile :: string

text \<open>
  What a handler method emits: the status given to \<^verbatim>\<open>send_response\<close>, the fields given
  to \<^verbatim>\<open>send_header\<close> in order, and the bytes written to \<^verbatim>\<open>self.wfile\<close>. The
  \<^verbatim>\<open>Server\<close> and \<^verbatim>\<open>Date\<close> fields that the base class adds by itself are not part
  of the record.
\<close>

record response =
  status :: nat
  headers :: "(string \<times> string) list"
  wfile :: string

definition no_response :: response where
  "no_response = \<lparr>status = 0, headers = [], wfile = []\<rparr>"

definition send_response :: "nat \<Rightarrow> response \<Rightarrow> response" where
  "send_response code r = r\<lparr>status := code\<rparr>"

definition send_header :: "string \<Rightarrow> string \<Rightarrow> response \<Rightarrow> response" where
  "send_header k v r = r\<lparr>headers := headers r @ [(k, v)]\<rparr>"

definition wfile_write :: "string \<Rightarrow> response \<Rightarrow> response" where
  "wfile_write b r = r\<lparr>wfile := wfile r @ b\<rparr>"

definition DEFAULT_PORT :: int where
  "DEFAULT_PORT = 8765"

definition resource_metadata :: "int \<Rightarrow> string" where
  "resource_metadata port =
     ''http://127.0.0.1:'' @ str_int port @ ''/.well-known/oauth-protected-resource/mcp''"

definition do_POST :: "http_server \<Rightarrow> request \<Rightarrow> response" where
  \<open>do_POST srv req =
     (let port = snd (server_address srv) in
      if path req = ''/mcp'' \<or> prefix ''/mcp/'' (path req) then
        wfile_write
          ''{"jsonrpc":"2.0","id":null,"error":{"code":-32600,"message":"Missing or invalid OAuth authorization"}}''
          (send_header ''WWW-Authenticate''
             (''Bearer realm="mcp-server", resource_metadata="'' @ resource_metadata port @ ''"'')
             (send_header ''Content-Type'' ''application/json; charset=utf-8''
                (send_response 401 no_response)))
      else send_response 404 no_response)\<close>

definition do_GET :: "http_server \<Rightarrow> request \<Rightarrow> response" where
  \<open>do_GET srv req =
     (let port = snd (server_address srv) in
      if path req = ''/.well-known/oauth-protected-resource/mcp''
         \<or> path req = ''/.well-known/oauth-protected-resource'' then
        wfile_write
          (''{"resource":"http://127.0.0.1:'' @ str_int port
             @ ''/mcp","authorization_servers":[{"issuer":"https://auth.example.com"}]}'')
          (send_header ''Content-Type'' ''application/json''
             (send_response 200 no_response))
      else send_response 404 no_response)\<close>

text \<open>
  The class defines \<^verbatim>\<open>do_POST\<close> and \<^verbatim>\<open>do_GET\<close> and no other \<^verbatim>\<open>do_\<close> method.
  Its base class \<^verbatim>\<open>BaseHTTPRequestHandler\<close> looks up \<^verbatim>\<open>'do_' + self.command\<close> and,
  when the handler has no such attribute, calls
  \<^verbatim>\<open>send_error(HTTPStatus.NOT_IMPLEMENTED, ...)\<close>: status 501 with the library's error
  page. The method name is compared as it stands, upper case included.
\<close>

datatype reply = Reply response | Send_error nat

definition handle_one_request :: "http_server \<Rightarrow> request \<Rightarrow> reply" where
  "handle_one_request srv req =
     (if command req = ''POST'' then Reply (do_POST srv req)
      else if command req = ''GET'' then Reply (do_GET srv req)
      else Send_error 501)"

fun reply_status :: "reply \<Rightarrow> nat" where
  "reply_status (Reply r) = status r"
| "reply_status (Send_error code) = code"

section \<open>From the connection to the handler\<close>

text \<open>
  Before it looks for a \<^verbatim>\<open>do_\<close> method, the base class (\<^verbatim>\<open>http/server.py\<close> of
  CPython 3.11, \<^verbatim>\<open>handle_one_request\<close> and \<^verbatim>\<open>parse_request\<close>) reads the request line
  with \<^verbatim>\<open>readline(65537)\<close>, parses it, and reads the header block with
  \<^verbatim>\<open>http.client.parse_headers\<close>. A connection is given by what \<^verbatim>\<open>readline\<close> returns:
  the request line, and the lines after it (header lines, the blank line, then the body);
  at the end of the list \<^verbatim>\<open>readline\<close> returns the empty line.
\<close>

record raw_request =
  raw_requestline :: string
  rfile_lines :: "string list"

definition CRLF :: string where
  "CRLF = [CHR 0x0D, CHR 0x0A]"

definition MAXLINE :: nat where
  "MAXLINE = 65536"

definition MAXHEADERS :: nat where
  "MAXHEADERS = 100"

datatype http_exception = LineTooLong | HTTPException

text \<open>
  \<^verbatim>\<open>http.client._read_headers\<close>: every line read is counted, the closing blank line
  too. The result is the lines read and the lines left unread.
\<close>

fun read_headers ::
  "string list \<Rightarrow> string list \<Rightarrow> http_exception + (string list \<times> string list)" where
  "read_headers hs [] =
     (if MAXHEADERS < length (hs @ ['''']) then Inl HTTPException else Inr (hs @ [''''], []))"
| "read_headers hs (line # rest) =
     (if MAXLINE < length line then Inl LineTooLong
      else if MAXHEADERS < length (hs @ [line]) then Inl HTTPException
      else if line = CRLF \<or> line = [CHR 0x0A] \<or> line = [] then Inr (hs @ [line], rest)
      else read_headers (hs @ [line]) rest)"

text \<open>
  The fields of the header lines, each line cut at its first colon and trimmed. The
  handler never reads them; folded lines and the other repairs of the \<^verbatim>\<open>email\<close> parser
  are not reproduced.
\<close>

definition header_field :: "string \<Rightarrow> string \<times> string" where
  "header_field line =
     (takeWhile (\<lambda>c. c \<noteq> CHR '':'') line,
      rev (dropWhile str_isspace
        (rev (dropWhile str_isspace (drop 1 (dropWhile (\<lambda>c. c \<noteq> CHR '':'') line))))))"

definition message :: "string list \<Rightarrow> (string \<times> string) list" where
  "message lines = map header_field (filter (\<lambda>line. CHR '':'' \<in> set line) lines)"

text \<open>
  The version of the request line: \<^verbatim>\<open>HTTP/\<close>, then two numbers of at most ten digits
  with one dot between. Anything else is a \<^verbatim>\<open>ValueError\<close>, which \<^verbatim>\<open>parse_request\<close>
  turns into status 400.
\<close>

definition parse_version :: "string \<Rightarrow> error + (int \<times> int)" where
  "parse_version version =
     (if \<not> prefix ''HTTP/'' version then Inl ValueError
      else
        let version_number = split_at (CHR ''.'') [] (drop 5 version) in
        if length version_number \<noteq> 2 then Inl ValueError
        else if \<exists>component \<in> set version_number. \<not> str_isdigit component then Inl ValueError
        else if \<exists>component \<in> set version_number. 10 < length component then Inl ValueError
        else
          (case (py_int (ustr (version_number ! 0)), py_int (ustr (version_number ! 1))) of
             (Inr major, Inr minor) \<Rightarrow> Inr (major, minor)
           | _ \<Rightarrow> Inl ValueError))"

definition default_request_version :: string where
  "default_request_version = ''HTTP/0.9''"

text \<open>With three words or more the last one is the version; from 2.0 on it is refused
  with status 505.\<close>

definition request_version_of :: "string list \<Rightarrow> nat + string" where
  "request_version_of words =
     (if 3 \<le> length words then
        (case parse_version (last words) of
           Inl _ \<Rightarrow> Inl 400
         | Inr (major, minor) \<Rightarrow>
             if 2 < major \<or> (major = 2 \<and> 0 \<le> minor) then Inl 505 else Inr (last words))
      else Inr default_request_version)"

text \<open>\<^verbatim>\<open>self.path\<close>: the target, with the slashes it starts with reduced to one when
  there are two or more.\<close>

definition self_path :: "string \<Rightarrow> string" where
  "self_path target =
     (if prefix ''//'' target then CHR ''/'' # dropWhile (\<lambda>c. c = CHR ''/'') target
      else target)"

text \<open>
  \<^verbatim>\<open>parse_request\<close>. \<open>Inl None\<close>: it returns \<^verbatim>\<open>False\<close> having sent nothing;
  \<open>Inl (Some code)\<close>: it has called \<^verbatim>\<open>send_error(code)\<close>; \<open>Inr\<close>: the request version
  and what the handler sees. The \<^verbatim>\<open>Connection\<close> and \<^verbatim>\<open>Expect\<close> fields that it reads at
  the end change nothing for a server whose \<^verbatim>\<open>protocol_version\<close> is \<^verbatim>\<open>HTTP/1.0\<close>, as
  here: the connection closes after one request either way.
\<close>

definition parse_request :: "raw_request \<Rightarrow> nat option + (string \<times> request)" where
  "parse_request r =
     (let requestline = rstrip_crlf (raw_requestline r);
          words = py_split requestline in
      if length words = 0 then Inl None
      else
        (case request_version_of words of
           Inl code \<Rightarrow> Inl (Some code)
         | Inr version \<Rightarrow>
             if \<not> (2 \<le> length words \<and> length words \<le> 3) then Inl (Some 400)
             else if length words = 2 \<and> words ! 0 \<noteq> ''GET'' then Inl (Some 400)
             else
               (case read_headers [] (rfile_lines r) of
                  Inl _ \<Rightarrow> Inl (Some 431)
                | Inr (lines, rest) \<Rightarrow>
                    Inr (version,
                         \<lparr>command = words ! 0, path = self_path (words ! 1),
                          req_headers = message lines, rfile = concat rest\<rparr>))))"

text \<open>
  Lines 18 and 19 of the script: \<^verbatim>\<open>log_message\<close> prints \<^verbatim>\<open>[server]\<close> and its first
  argument after the format to standard error, and drops the rest. The base class calls
  it through \<^verbatim>\<open>log_request\<close> from every \<^verbatim>\<open>send_response\<close>, with the request line first,
  and through \<^verbatim>\<open>log_error\<close> from \<^verbatim>\<open>send_error\<close>, with the status code first.
\<close>

definition log_message :: "string \<Rightarrow> string \<Rightarrow> string" where
  "log_message format arg = ''[server] '' @ arg"

definition log_request :: "string \<Rightarrow> nat \<Rightarrow> string" where
  \<open>log_request requestline code = log_message ''"%s" %s %s'' requestline\<close>

definition log_error :: "string \<Rightarrow> string \<Rightarrow> string" where
  "log_error format arg = log_message format arg"

text \<open>\<^verbatim>\<open>send_error\<close> logs the error, then the request through \<^verbatim>\<open>send_response\<close>.\<close>

definition send_error :: "nat \<Rightarrow> string \<Rightarrow> reply \<times> string list" where
  "send_error code requestline =
     (Send_error code,
      [log_error ''code %d, message %s'' (str_int (int code)), log_request requestline code])"

text \<open>
  One connection: the whole of the base class's \<^verbatim>\<open>handle_one_request\<close>, with the
  dispatch above at its end. No reply at all is \<open>None\<close>. For a request line of two words
  (HTTP/0.9) the base class keeps the status line and the header fields off the wire; the
  reply is what was passed to \<^verbatim>\<open>send_response\<close> and \<^verbatim>\<open>send_header\<close> all the same.
\<close>

definition handle :: "http_server \<Rightarrow> raw_request \<Rightarrow> reply option \<times> string list" where
  "handle server r =
     (if 65536 < length (raw_requestline r) then
        (case send_error 414 [] of (reply, log) \<Rightarrow> (Some reply, log))
      else if raw_requestline r = [] then (None, [])
      else
        let requestline = rstrip_crlf (raw_requestline r) in
        (case parse_request r of
           Inl None \<Rightarrow> (None, [])
         | Inl (Some code) \<Rightarrow>
             (case send_error code requestline of (reply, log) \<Rightarrow> (Some reply, log))
         | Inr (version, req) \<Rightarrow>
             (case handle_one_request server req of
                Send_error code \<Rightarrow>
                  (case send_error code requestline of (reply, log) \<Rightarrow> (Some reply, log))
              | Reply resp \<Rightarrow>
                  (Some (Reply resp), [log_request requestline (status resp)]))))"

section \<open>Start-up and the serve loop\<close>

text \<open>Line 52 of the script: the port asked for.\<close>

definition requested_port :: "pystr list \<Rightarrow> error + int" where
  "requested_port argv = (if 1 < length argv then py_int (argv ! 1) else Inr DEFAULT_PORT)"

text \<open>
  \<^verbatim>\<open>HTTPServer(("127.0.0.1", port), TodoistStyleHandler)\<close> binds and listens in its
  constructor and then stores \<^verbatim>\<open>socket.getsockname()\<close> as \<^verbatim>\<open>server_address\<close>. The
  system is given by the loopback ports that have a listening socket and by the first
  port that the operator may bind without privilege (1024 for an ordinary user on Linux,
  0 for one who may bind any); \<open>ephemeral\<close> is the port the system hands out when port 0
  is asked for, taken from a range above the privileged ports. \<^verbatim>\<open>bind\<close> refuses a port
  outside 0..65535 with \<^verbatim>\<open>OverflowError\<close>, a privileged port with
  \<^verbatim>\<open>PermissionError\<close> and a port that is taken with \<^verbatim>\<open>OSError\<close> (address already in
  use), in this order; the script catches none of them.
\<close>

record os =
  listening :: "nat set"
  first_unprivileged :: nat

definition HTTPServer :: "nat \<Rightarrow> os \<Rightarrow> int \<Rightarrow> error + (http_server \<times> os)" where
  "HTTPServer ephemeral s port =
     (if port < 0 \<or> 65535 < port then Inl OverflowError
      else if port \<noteq> 0 \<and> nat port < first_unprivileged s then Inl PermissionError
      else
        let q = (if port = 0 then ephemeral else nat port) in
        if q = 0 \<or> 65535 < q \<or> q < first_unprivileged s \<or> q \<in> listening s
        then Inl AddressInUse
        else Inr (\<lparr>server_address = (''127.0.0.1'', int q)\<rparr>,
                  s\<lparr>listening := insert q (listening s)\<rparr>))"

text \<open>Lines 52 to 55: parse, bind, print the two banner lines to standard error.\<close>

definition startup ::
  "nat \<Rightarrow> os \<Rightarrow> pystr list \<Rightarrow> error + (http_server \<times> string list \<times> os)" where
  "startup ephemeral s argv =
     (case requested_port argv of
        Inl e \<Rightarrow> Inl e
      | Inr port \<Rightarrow>
          (case HTTPServer ephemeral s port of
             Inl e \<Rightarrow> Inl e
           | Inr (server, s') \<Rightarrow>
               Inr (server,
                    [''Todoist-style MCP OAuth test server on http://127.0.0.1:'' @ str_int port,
                     ''POST /mcp -> 401 WWW-Authenticate resource_metadata='' @ resource_metadata port],
                    s')))"

text \<open>
  \<^verbatim>\<open>serve_forever\<close> takes the connections one at a time until the interrupt; \<open>reqs\<close>
  are the ones that arrive before it. Each handler is given the server object, which it
  could change and does not; an exception raised while a connection is handled would be
  caught and reported by \<^verbatim>\<open>socketserver\<close>, and the interrupt is caught by \<^verbatim>\<open>main\<close>.
  \<^verbatim>\<open>server_close\<close> frees the port.
\<close>

definition finish_request ::
  "http_server \<Rightarrow> raw_request \<Rightarrow> (reply option \<times> string list) \<times> http_server" where
  "finish_request server r = (handle server r, server)"

fun serve_forever ::
  "http_server \<Rightarrow> raw_request list \<Rightarrow> (reply option list \<times> string list) \<times> http_server" where
  "serve_forever server [] = (([], []), server)"
| "serve_forever server (r # rs) =
     (case finish_request server r of
        ((reply, log), server') \<Rightarrow>
          (case serve_forever server' rs of
             ((replies, logs), server'') \<Rightarrow> ((reply # replies, log @ logs), server'')))"

definition server_close :: "http_server \<Rightarrow> os \<Rightarrow> os" where
  "server_close server s =
     s\<lparr>listening := listening s - {nat (snd (server_address server))}\<rparr>"

text \<open>The result of a run: what went to standard error, the replies, the system after.\<close>

definition main ::
  "nat \<Rightarrow> os \<Rightarrow> pystr list \<Rightarrow> raw_request list
     \<Rightarrow> error + (string list \<times> reply option list \<times> os)" where
  "main ephemeral s argv reqs =
     (case startup ephemeral s argv of
        Inl e \<Rightarrow> Inl e
      | Inr (server, banner, s') \<Rightarrow>
          (case serve_forever server reqs of
             ((replies, logs), server') \<Rightarrow>
               Inr (banner @ logs, replies, server_close server' s')))"

section \<open>Evaluation lemmas\<close>

lemma str_nat_digit: "n < 10 \<Longrightarrow> str_nat n = [decimal_digits ! n]"
  by (simp add: str_nat.simps)

lemma str_nat_more:
  "10 \<le> n \<Longrightarrow> str_nat n = str_nat (n div 10) @ [decimal_digits ! (n mod 10)]"
  by (subst str_nat.simps) simp

lemmas str_eval = str_int_def str_nat_digit str_nat_more decimal_digits_def

lemma str_int_9999: "str_int 9999 = ''9999''"
  by (simp add: str_eval)

lemma str_int_8765: "str_int 8765 = ''8765''"
  by (simp add: str_eval)

lemmas emit_defs = no_response_def send_response_def send_header_def wfile_write_def

section \<open>The two routes\<close>

text \<open>
  C1. A POST whose path is \<^verbatim>\<open>/mcp\<close> or starts with \<^verbatim>\<open>/mcp/\<close> is answered with status
  401, the content type \<^verbatim>\<open>application/json; charset=utf-8\<close>, the Bearer challenge whose
  \<^verbatim>\<open>resource_metadata\<close> is the well-known URL on the server's bound port, and exactly
  the fixed JSON-RPC error text as body.
\<close>

theorem post_mcp_unauthorized:
  assumes "command req = ''POST''"
    and "path req = ''/mcp'' \<or> prefix ''/mcp/'' (path req)"
  shows \<open>handle_one_request srv req =
    Reply \<lparr>status = 401,
      headers =
        [(''Content-Type'', ''application/json; charset=utf-8''),
         (''WWW-Authenticate'',
          ''Bearer realm="mcp-server", resource_metadata="http://127.0.0.1:''
            @ str_int (snd (server_address srv))
            @ ''/.well-known/oauth-protected-resource/mcp"'')],
      wfile = ''{"jsonrpc":"2.0","id":null,"error":{"code":-32600,"message":"Missing or invalid OAuth authorization"}}''\<rparr>\<close>
  using assms
  by (simp add: handle_one_request_def do_POST_def resource_metadata_def emit_defs)

theorem post_mcp_unauthorized_witness:
  \<open>command \<lparr>command = ''POST'', path = ''/mcp'', req_headers = [], rfile = []\<rparr> = ''POST''
   \<and> (path \<lparr>command = ''POST'', path = ''/mcp'', req_headers = [], rfile = []\<rparr> = ''/mcp''
        \<or> prefix ''/mcp/'' (path \<lparr>command = ''POST'', path = ''/mcp'', req_headers = [], rfile = []\<rparr>))
   \<and> handle_one_request \<lparr>server_address = (''127.0.0.1'', 9999)\<rparr>
         \<lparr>command = ''POST'', path = ''/mcp'', req_headers = [], rfile = []\<rparr> =
       Reply \<lparr>status = 401,
         headers =
           [(''Content-Type'', ''application/json; charset=utf-8''),
            (''WWW-Authenticate'',
             ''Bearer realm="mcp-server", resource_metadata="http://127.0.0.1:9999/.well-known/oauth-protected-resource/mcp"'')],
         wfile = ''{"jsonrpc":"2.0","id":null,"error":{"code":-32600,"message":"Missing or invalid OAuth authorization"}}''\<rparr>\<close>
  using post_mcp_unauthorized
    [of "\<lparr>command = ''POST'', path = ''/mcp'', req_headers = [], rfile = []\<rparr>"
        "\<lparr>server_address = (''127.0.0.1'', 9999)\<rparr>"]
  by (simp add: str_int_9999)

text \<open>
  C2. A GET whose path is exactly \<^verbatim>\<open>/.well-known/oauth-protected-resource/mcp\<close> or
  exactly \<^verbatim>\<open>/.well-known/oauth-protected-resource\<close> is answered with status 200, the
  content type \<^verbatim>\<open>application/json\<close> and the metadata document naming
  \<^verbatim>\<open>http://127.0.0.1:<port>/mcp\<close> for the server's bound port.
\<close>

theorem get_well_known_ok:
  assumes "command req = ''GET''"
    and "path req = ''/.well-known/oauth-protected-resource/mcp'' \<or> path req = ''/.well-known/oauth-protected-resource''"
  shows \<open>handle_one_request srv req =
    Reply \<lparr>status = 200,
      headers = [(''Content-Type'', ''application/json'')],
      wfile =
        ''{"resource":"http://127.0.0.1:'' @ str_int (snd (server_address srv))
          @ ''/mcp","authorization_servers":[{"issuer":"https://auth.example.com"}]}''\<rparr>\<close>
  using assms
  by (auto simp add: handle_one_request_def do_GET_def emit_defs)

theorem get_well_known_ok_witness:
  \<open>command \<lparr>command = ''GET'', path = ''/.well-known/oauth-protected-resource/mcp'', req_headers = [], rfile = []\<rparr> = ''GET''
   \<and> (path \<lparr>command = ''GET'', path = ''/.well-known/oauth-protected-resource/mcp'', req_headers = [], rfile = []\<rparr> = ''/.well-known/oauth-protected-resource/mcp''
        \<or> path \<lparr>command = ''GET'', path = ''/.well-known/oauth-protected-resource/mcp'', req_headers = [], rfile = []\<rparr> = ''/.well-known/oauth-protected-resource'')
   \<and> handle_one_request \<lparr>server_address = (''127.0.0.1'', 8765)\<rparr>
         \<lparr>command = ''GET'', path = ''/.well-known/oauth-protected-resource/mcp'', req_headers = [], rfile = []\<rparr> =
       Reply \<lparr>status = 200,
         headers = [(''Content-Type'', ''application/json'')],
         wfile = ''{"resource":"http://127.0.0.1:8765/mcp","authorization_servers":[{"issuer":"https://auth.example.com"}]}''\<rparr>\<close>
  using get_well_known_ok
    [of "\<lparr>command = ''GET'', path = ''/.well-known/oauth-protected-resource/mcp'', req_headers = [], rfile = []\<rparr>"
        "\<lparr>server_address = (''127.0.0.1'', 8765)\<rparr>"]
  by (simp add: str_int_8765)

text \<open>
  C5. A GET of \<^verbatim>\<open>/.well-known/oauth-protected-resource\<close>, without the trailing segment,
  gets the reply of a GET of \<^verbatim>\<open>/.well-known/oauth-protected-resource/mcp\<close> on the same
  server: the same status 200, the same content type, the same body, whatever else the
  two requests carry.
\<close>

theorem get_well_known_short_same_reply:
  "handle_one_request srv \<lparr>command = ''GET'', path = ''/.well-known/oauth-protected-resource'', req_headers = h, rfile = b\<rparr> =
     handle_one_request srv \<lparr>command = ''GET'', path = ''/.well-known/oauth-protected-resource/mcp'', req_headers = h', rfile = b'\<rparr>
   \<and> reply_status
        (handle_one_request srv \<lparr>command = ''GET'', path = ''/.well-known/oauth-protected-resource'', req_headers = h, rfile = b\<rparr>) = 200"
  by (simp add: handle_one_request_def do_GET_def emit_defs)

section \<open>Everything else\<close>

text \<open>
  C3, as the specification states it: every request other than the two routes, a PUT,
  DELETE or HEAD on any path included, is answered with status 404 and an empty body.
  The handler class has no method for PUT, so the base class answers for it.
\<close>

theorem put_request_counterexample:
  "handle_one_request \<lparr>server_address = (''127.0.0.1'', 8765)\<rparr>
       \<lparr>command = ''PUT'', path = ''/foo'', req_headers = [], rfile = []\<rparr>
     \<noteq> Reply \<lparr>status = 404, headers = [], wfile = []\<rparr>
   \<and> reply_status
        (handle_one_request \<lparr>server_address = (''127.0.0.1'', 8765)\<rparr>
           \<lparr>command = ''PUT'', path = ''/foo'', req_headers = [], rfile = []\<rparr>) = 501"
  by (simp add: handle_one_request_def)

text \<open>
  C3, amended: a POST or a GET outside the two routes is answered with status 404, no
  header field of the handler's and an empty body; a request with any other method is
  not answered by the handler class at all, and the base class replies 501.
\<close>

theorem unmatched_request_reply:
  assumes "\<not> (command req = ''POST'' \<and> (path req = ''/mcp'' \<or> prefix ''/mcp/'' (path req)))"
    and "\<not> (command req = ''GET'' \<and> (path req = ''/.well-known/oauth-protected-resource/mcp'' \<or> path req = ''/.well-known/oauth-protected-resource''))"
  shows "handle_one_request srv req =
    (if command req = ''POST'' \<or> command req = ''GET''
     then Reply \<lparr>status = 404, headers = [], wfile = []\<rparr>
     else Send_error 501)"
  using assms
  by (auto simp add: handle_one_request_def do_POST_def do_GET_def emit_defs)

theorem unmatched_request_reply_witness:
  "\<not> (command \<lparr>command = ''GET'', path = ''/foo'', req_headers = [], rfile = []\<rparr> = ''POST''
       \<and> (path \<lparr>command = ''GET'', path = ''/foo'', req_headers = [], rfile = []\<rparr> = ''/mcp''
            \<or> prefix ''/mcp/''
                 (path \<lparr>command = ''GET'', path = ''/foo'', req_headers = [], rfile = []\<rparr>)))
   \<and> \<not> (command \<lparr>command = ''GET'', path = ''/foo'', req_headers = [], rfile = []\<rparr> = ''GET''
       \<and> (path \<lparr>command = ''GET'', path = ''/foo'', req_headers = [], rfile = []\<rparr> = ''/.well-known/oauth-protected-resource/mcp''
            \<or> path \<lparr>command = ''GET'', path = ''/foo'', req_headers = [], rfile = []\<rparr> = ''/.well-known/oauth-protected-resource''))
   \<and> handle_one_request \<lparr>server_address = (''127.0.0.1'', 8765)\<rparr>
         \<lparr>command = ''GET'', path = ''/foo'', req_headers = [], rfile = []\<rparr> =
       Reply \<lparr>status = 404, headers = [], wfile = []\<rparr>"
  using unmatched_request_reply
    [of "\<lparr>command = ''GET'', path = ''/foo'', req_headers = [], rfile = []\<rparr>"
        "\<lparr>server_address = (''127.0.0.1'', 8765)\<rparr>"]
  by simp

section \<open>The two replies point at each other\<close>

text \<open>
  C9. The two replies point at each other on the bound port. The challenge of a POST of
  \<^verbatim>\<open>/mcp\<close> (status 401) names as \<^verbatim>\<open>resource_metadata\<close> the URL made of
  \<^verbatim>\<open>http://127.0.0.1:\<close>, the server's port and a path; a GET of that path is answered
  with status 200, and its body names as \<^verbatim>\<open>resource\<close> the URL made of the same host and
  port and the path \<^verbatim>\<open>/mcp\<close>.
\<close>

theorem challenge_and_metadata_agree:
  \<open>\<exists>r r'.
     handle_one_request srv \<lparr>command = ''POST'', path = ''/mcp'', req_headers = h, rfile = b\<rparr>
       = Reply r
     \<and> status r = 401
     \<and> map_of (headers r) ''WWW-Authenticate'' =
         Some (''Bearer realm="mcp-server", resource_metadata="''
                 @ (''http://127.0.0.1:'' @ str_int (snd (server_address srv)) @ ''/.well-known/oauth-protected-resource/mcp'')
                 @ ''"'')
     \<and> handle_one_request srv \<lparr>command = ''GET'', path = ''/.well-known/oauth-protected-resource/mcp'', req_headers = h', rfile = b'\<rparr>
       = Reply r'
     \<and> status r' = 200
     \<and> wfile r' =
         ''{"resource":"''
           @ (''http://127.0.0.1:'' @ str_int (snd (server_address srv)) @ ''/mcp'')
           @ ''","authorization_servers":[{"issuer":"https://auth.example.com"}]}''\<close>
  by (simp add: handle_one_request_def do_POST_def do_GET_def resource_metadata_def emit_defs)


section \<open>The request line and the header block\<close>

lemma split_ws_word:
  "\<forall>c \<in> set t. \<not> str_isspace c \<Longrightarrow> split_ws w (t @ rest) = split_ws (w @ t) rest"
  by (induction t arbitrary: w) simp_all

lemma space_isspace: "str_isspace CHR '' ''"
  by (simp add: str_isspace_def)

lemma py_split_three:
  assumes "m \<noteq> []" "t \<noteq> []" "v \<noteq> []"
    and "\<forall>c \<in> set m. \<not> str_isspace c"
    and "\<forall>c \<in> set t. \<not> str_isspace c"
    and "\<forall>c \<in> set v. \<not> str_isspace c"
  shows "py_split (m @ '' '' @ t @ '' '' @ v) = [m, t, v]"
proof -
  have "split_ws [] (m @ CHR '' '' # (t @ CHR '' '' # v)) =
      split_ws m (CHR '' '' # (t @ CHR '' '' # v))"
    using split_ws_word [OF assms(4), of "[]"] by simp
  also have "\<dots> = m # split_ws [] (t @ CHR '' '' # v)"
    using assms(1) by (simp add: space_isspace)
  also have "split_ws [] (t @ CHR '' '' # v) = split_ws t (CHR '' '' # v)"
    using split_ws_word [OF assms(5), of "[]"] by simp
  also have "\<dots> = t # split_ws [] (v @ [])"
    using assms(2) by (simp add: space_isspace)
  also have "split_ws [] (v @ []) = split_ws v []"
    using split_ws_word [OF assms(6), of "[]" "[]"] by simp
  also have "\<dots> = [v]"
    using assms(3) by simp
  finally show ?thesis by (simp add: py_split_def)
qed

lemma rstrip_crlf_line:
  assumes "s \<noteq> []" and "last s \<noteq> CHR 0x0D" and "last s \<noteq> CHR 0x0A"
  shows "rstrip_crlf (s @ CRLF) = s"
proof -
  from assms(1) obtain ys y where s: "s = ys @ [y]"
    by (cases s rule: rev_cases) auto
  with assms(2,3) show ?thesis
    by (simp add: rstrip_crlf_def CRLF_def)
qed

lemmas int_eval = py_int_def py_strip_def int_isspace_def unicode_spaces_def split_sign_def
  decimal_value_def decimal_zeros_def int_max_str_digits_def ustr_def

lemma parse_version_10: "parse_version ''HTTP/1.0'' = Inr (1, 0)"
  by (simp add: parse_version_def str_isdigit_def decimal_digits_def int_eval)

lemma parse_version_11: "parse_version ''HTTP/1.1'' = Inr (1, 1)"
  by (simp add: parse_version_def str_isdigit_def decimal_digits_def int_eval)

lemma request_version_of_1x:
  assumes "v = ''HTTP/1.0'' \<or> v = ''HTTP/1.1''"
  shows "request_version_of [m, t, v] = Inr v"
  using assms
  by (auto simp add: request_version_of_def parse_version_10 parse_version_11)

lemma parse_request_line:
  assumes "t \<noteq> []" and "\<forall>c \<in> set t. \<not> str_isspace c"
    and "m \<noteq> []" and "\<forall>c \<in> set m. \<not> str_isspace c"
    and "v = ''HTTP/1.0'' \<or> v = ''HTTP/1.1''"
    and "read_headers [] ls = Inr (hs, rest)"
  shows "parse_request \<lparr>raw_requestline = m @ '' '' @ t @ '' '' @ v @ CRLF, rfile_lines = ls\<rparr> =
    Inr (v, \<lparr>command = m, path = self_path t, req_headers = message hs, rfile = concat rest\<rparr>)"
proof -
  from assms(5) have v: "v \<noteq> []" "\<forall>c \<in> set v. \<not> str_isspace c"
    "last v \<noteq> CHR 0x0D" "last v \<noteq> CHR 0x0A"
    by (auto simp add: str_isspace_def)
  have "m @ '' '' @ t @ '' '' @ v @ CRLF = (m @ '' '' @ t @ '' '' @ v) @ CRLF"
    by simp
  moreover have "rstrip_crlf ((m @ '' '' @ t @ '' '' @ v) @ CRLF) = m @ '' '' @ t @ '' '' @ v"
    using v by (intro rstrip_crlf_line) simp_all
  ultimately have l: "rstrip_crlf (m @ '' '' @ t @ '' '' @ v @ CRLF) = m @ '' '' @ t @ '' '' @ v"
    by simp
  have w: "py_split (m @ '' '' @ t @ '' '' @ v) = [m, t, v]"
    using assms(1-4) v(1,2) by (intro py_split_three) simp_all
  show ?thesis
    using l w request_version_of_1x [OF assms(5), of m t] assms(6)
    by (simp add: parse_request_def)
qed

lemma handle_request_line:
  assumes "t \<noteq> []" and "\<forall>c \<in> set t. \<not> str_isspace c"
    and "m \<noteq> []" and "\<forall>c \<in> set m. \<not> str_isspace c"
    and "v = ''HTTP/1.0'' \<or> v = ''HTTP/1.1''"
    and "read_headers [] ls = Inr (hs, rest)"
    and "length (m @ '' '' @ t @ '' '' @ v @ CRLF) \<le> 65536"
  shows "fst (handle srv \<lparr>raw_requestline = m @ '' '' @ t @ '' '' @ v @ CRLF, rfile_lines = ls\<rparr>) =
    Some (handle_one_request srv
      \<lparr>command = m, path = self_path t, req_headers = message hs, rfile = concat rest\<rparr>)"
proof -
  have "\<not> 65536 < length (m @ '' '' @ t @ '' '' @ v @ CRLF)"
    using assms(7) by simp
  moreover have "m @ '' '' @ t @ '' '' @ v @ CRLF \<noteq> []"
    using assms(3) by simp
  ultimately show ?thesis
    using parse_request_line [OF assms(1-6)]
    by (simp add: handle_def send_error_def Let_def split: reply.splits)
qed

lemma read_headers_blank: "read_headers [] [CRLF] = Inr ([CRLF], [])"
  by (simp add: MAXHEADERS_def MAXLINE_def CRLF_def)

lemma read_headers_many:
  assumes "\<forall>l \<in> set ls. length l \<le> MAXLINE \<and> l \<noteq> CRLF \<and> l \<noteq> [CHR 0x0A] \<and> l \<noteq> []"
    and "MAXHEADERS \<le> length hs + length ls"
  shows "isl (read_headers hs (ls @ rest))"
  using assms
proof (induction ls arbitrary: hs)
  case Nil
  then show ?case by (cases rest) simp_all
next
  case (Cons l ls)
  from Cons.prems have "MAXHEADERS \<le> length (hs @ [l]) + length ls"
    by simp
  with Cons.IH [of "hs @ [l]"] Cons.prems(1)
  have "isl (read_headers (hs @ [l]) (ls @ rest))"
    by simp
  with Cons.prems(1) show ?case by simp
qed


lemma parse_request_refused:
  assumes "t \<noteq> []" and "\<forall>c \<in> set t. \<not> str_isspace c"
    and "m \<noteq> []" and "\<forall>c \<in> set m. \<not> str_isspace c"
    and "v = ''HTTP/1.0'' \<or> v = ''HTTP/1.1''"
    and "isl (read_headers [] ls)"
  shows "parse_request \<lparr>raw_requestline = m @ '' '' @ t @ '' '' @ v @ CRLF, rfile_lines = ls\<rparr> =
    Inl (Some 431)"
proof -
  from assms(5) have v: "v \<noteq> []" "\<forall>c \<in> set v. \<not> str_isspace c"
    "last v \<noteq> CHR 0x0D" "last v \<noteq> CHR 0x0A"
    by (auto simp add: str_isspace_def)
  have "rstrip_crlf ((m @ '' '' @ t @ '' '' @ v) @ CRLF) = m @ '' '' @ t @ '' '' @ v"
    using v by (intro rstrip_crlf_line) simp_all
  then have l: "rstrip_crlf (m @ '' '' @ t @ '' '' @ v @ CRLF) = m @ '' '' @ t @ '' '' @ v"
    by simp
  have w: "py_split (m @ '' '' @ t @ '' '' @ v) = [m, t, v]"
    using assms(1-4) v(1,2) by (intro py_split_three) simp_all
  from assms(6) obtain x where "read_headers [] ls = Inl x"
    by (cases "read_headers [] ls") auto
  then show ?thesis
    using l w request_version_of_1x [OF assms(5), of m t]
    by (simp add: parse_request_def)
qed

lemma parse_request_nonempty: "parse_request r = Inr x \<Longrightarrow> raw_requestline r \<noteq> []"
  by (auto simp add: parse_request_def rstrip_crlf_def py_split_def)

lemma handle_accepted:
  assumes "parse_request r = Inr (v, q)" and "length (raw_requestline r) \<le> 65536"
  shows "fst (handle srv r) = Some (handle_one_request srv q)"
  using assms parse_request_nonempty [OF assms(1)]
  by (simp add: handle_def send_error_def Let_def split: reply.splits)

lemma handle_refused:
  assumes "parse_request r = Inl (Some code)" and "length (raw_requestline r) \<le> 65536"
    and "raw_requestline r \<noteq> []"
  shows "fst (handle srv r) = Some (Send_error code)"
  using assms
  by (simp add: handle_def send_error_def Let_def)

lemma dispatch_reads_method_and_path:
  assumes "command r1 = command r2" and "path r1 = path r2"
  shows "handle_one_request srv r1 = handle_one_request srv r2"
  using assms
  by (simp add: handle_one_request_def do_POST_def do_GET_def)

lemma post_status:
  "reply_status (handle_one_request srv
      \<lparr>command = ''POST'', path = p, req_headers = h, rfile = b\<rparr>) =
    (if p = ''/mcp'' \<or> prefix ''/mcp/'' p then 401 else 404)"
  by (simp add: handle_one_request_def do_POST_def emit_defs)

lemma get_status:
  "reply_status (handle_one_request srv
      \<lparr>command = ''GET'', path = p, req_headers = h, rfile = b\<rparr>) =
    (if p = ''/.well-known/oauth-protected-resource/mcp'' \<or> p = ''/.well-known/oauth-protected-resource'' then 200 else 404)"
  by (simp add: handle_one_request_def do_GET_def emit_defs)

section \<open>What a reply depends on\<close>

text \<open>
  C8, as the specification states it: two requests with the same method and the same
  path get the same response, whatever their header fields. The base class reads the
  header block before the handler runs and refuses one of a hundred lines or more: the
  same POST of \<^verbatim>\<open>/mcp\<close> gets 401 without header fields and 431 with a hundred of them.
\<close>

theorem header_block_counterexample:
  "map_option reply_status
     (fst (handle \<lparr>server_address = (''127.0.0.1'', 8765)\<rparr>
        \<lparr>raw_requestline = ''POST /mcp HTTP/1.1'' @ CRLF, rfile_lines = [CRLF]\<rparr>)) = Some 401
   \<and> map_option reply_status
     (fst (handle \<lparr>server_address = (''127.0.0.1'', 8765)\<rparr>
        \<lparr>raw_requestline = ''POST /mcp HTTP/1.1'' @ CRLF,
         rfile_lines = replicate 100 (''X-Pad: 1'' @ CRLF) @ [CRLF]\<rparr>)) = Some 431"
proof -
  have m: "''POST'' \<noteq> []" "\<forall>c \<in> set ''POST''. \<not> str_isspace c"
    and t: "''/mcp'' \<noteq> []" "\<forall>c \<in> set ''/mcp''. \<not> str_isspace c"
    and v: "''HTTP/1.1'' = ''HTTP/1.0'' \<or> ''HTTP/1.1'' = ''HTTP/1.1''"
    by (simp_all add: str_isspace_def)
  have "fst (handle \<lparr>server_address = (''127.0.0.1'', 8765)\<rparr>
      \<lparr>raw_requestline = ''POST'' @ '' '' @ ''/mcp'' @ '' '' @ ''HTTP/1.1'' @ CRLF,
       rfile_lines = [CRLF]\<rparr>) =
    Some (handle_one_request \<lparr>server_address = (''127.0.0.1'', 8765)\<rparr>
      \<lparr>command = ''POST'', path = self_path ''/mcp'', req_headers = message [CRLF],
       rfile = concat []\<rparr>)"
    by (rule handle_request_line [OF t m v read_headers_blank]) (simp add: CRLF_def)
  then have a: "map_option reply_status
     (fst (handle \<lparr>server_address = (''127.0.0.1'', 8765)\<rparr>
        \<lparr>raw_requestline = ''POST /mcp HTTP/1.1'' @ CRLF, rfile_lines = [CRLF]\<rparr>)) = Some 401"
    by (simp add: post_status self_path_def)
  have "isl (read_headers [] (replicate 100 (''X-Pad: 1'' @ CRLF) @ [CRLF]))"
    by (rule read_headers_many) (simp_all add: MAXLINE_def MAXHEADERS_def CRLF_def)
  then have "parse_request
      \<lparr>raw_requestline = ''POST'' @ '' '' @ ''/mcp'' @ '' '' @ ''HTTP/1.1'' @ CRLF,
       rfile_lines = replicate 100 (''X-Pad: 1'' @ CRLF) @ [CRLF]\<rparr> = Inl (Some 431)"
    by (rule parse_request_refused [OF t m v])
  then have "fst (handle \<lparr>server_address = (''127.0.0.1'', 8765)\<rparr>
      \<lparr>raw_requestline = ''POST'' @ '' '' @ ''/mcp'' @ '' '' @ ''HTTP/1.1'' @ CRLF,
       rfile_lines = replicate 100 (''X-Pad: 1'' @ CRLF) @ [CRLF]\<rparr>) = Some (Send_error 431)"
    by (rule handle_refused) (simp_all add: CRLF_def)
  then have b: "map_option reply_status
     (fst (handle \<lparr>server_address = (''127.0.0.1'', 8765)\<rparr>
        \<lparr>raw_requestline = ''POST /mcp HTTP/1.1'' @ CRLF,
         rfile_lines = replicate 100 (''X-Pad: 1'' @ CRLF) @ [CRLF]\<rparr>)) = Some 431"
    by simp
  from a b show ?thesis ..
qed

text \<open>
  C8, amended: for the requests that pass the base class (a request line of at most
  65536 bytes that \<^verbatim>\<open>parse_request\<close> accepts, the header block within the limits of
  \<^verbatim>\<open>http.client\<close>), the reply of the handler, that is the status, the header fields
  it sets and the body, is a function of the method, \<^verbatim>\<open>self.path\<close> and the server
  (its bound port) alone: two such requests with the same method and the same path get
  the same reply from the same server, whatever their header fields and bodies are.
\<close>

theorem accepted_reply_ignores_headers_and_body:
  assumes "parse_request r1 = Inr (v1, q1)" and "parse_request r2 = Inr (v2, q2)"
    and "length (raw_requestline r1) \<le> 65536" and "length (raw_requestline r2) \<le> 65536"
    and "command q1 = command q2" and "path q1 = path q2"
  shows "fst (handle srv r1) = fst (handle srv r2)
    \<and> fst (handle srv r1) = Some (handle_one_request srv q1)"
proof -
  have "fst (handle srv r1) = Some (handle_one_request srv q1)"
    using assms(1,3) by (rule handle_accepted)
  moreover have "fst (handle srv r2) = Some (handle_one_request srv q2)"
    using assms(2,4) by (rule handle_accepted)
  moreover have "handle_one_request srv q1 = handle_one_request srv q2"
    using assms(5,6) by (rule dispatch_reads_method_and_path)
  ultimately show ?thesis by simp
qed


theorem accepted_reply_ignores_headers_and_body_witness:
  "parse_request
     \<lparr>raw_requestline = ''POST /mcp HTTP/1.1'' @ CRLF,
      rfile_lines = [''Authorization: Bearer abc'' @ CRLF, CRLF, ''{}'']\<rparr> =
     Inr (''HTTP/1.1'',
          \<lparr>command = ''POST'', path = ''/mcp'',
           req_headers = [(''Authorization'', ''Bearer abc'')], rfile = ''{}''\<rparr>)
   \<and> parse_request \<lparr>raw_requestline = ''POST /mcp HTTP/1.0'' @ CRLF, rfile_lines = [CRLF]\<rparr> =
     Inr (''HTTP/1.0'', \<lparr>command = ''POST'', path = ''/mcp'', req_headers = [], rfile = []\<rparr>)
   \<and> fst (handle \<lparr>server_address = (''127.0.0.1'', 9999)\<rparr>
          \<lparr>raw_requestline = ''POST /mcp HTTP/1.1'' @ CRLF,
           rfile_lines = [''Authorization: Bearer abc'' @ CRLF, CRLF, ''{}'']\<rparr>) =
       fst (handle \<lparr>server_address = (''127.0.0.1'', 9999)\<rparr>
          \<lparr>raw_requestline = ''POST /mcp HTTP/1.0'' @ CRLF, rfile_lines = [CRLF]\<rparr>)"
proof -
  have m: "''POST'' \<noteq> []" "\<forall>c \<in> set ''POST''. \<not> str_isspace c"
    and t: "''/mcp'' \<noteq> []" "\<forall>c \<in> set ''/mcp''. \<not> str_isspace c"
    and v1: "''HTTP/1.1'' = ''HTTP/1.0'' \<or> ''HTTP/1.1'' = ''HTTP/1.1''"
    and v0: "''HTTP/1.0'' = ''HTTP/1.0'' \<or> ''HTTP/1.0'' = ''HTTP/1.1''"
    by (simp_all add: str_isspace_def)
  have h: "read_headers [] [''Authorization: Bearer abc'' @ CRLF, CRLF, ''{}''] =
      Inr ([''Authorization: Bearer abc'' @ CRLF, CRLF], [''{}''])"
    by (simp add: MAXHEADERS_def MAXLINE_def CRLF_def)
  have p1: "parse_request
     \<lparr>raw_requestline = ''POST /mcp HTTP/1.1'' @ CRLF,
      rfile_lines = [''Authorization: Bearer abc'' @ CRLF, CRLF, ''{}'']\<rparr> =
     Inr (''HTTP/1.1'',
          \<lparr>command = ''POST'', path = ''/mcp'',
           req_headers = [(''Authorization'', ''Bearer abc'')], rfile = ''{}''\<rparr>)"
    using parse_request_line [OF t m v1 h]
    by (simp add: self_path_def message_def header_field_def str_isspace_def CRLF_def)
  have p2: "parse_request \<lparr>raw_requestline = ''POST /mcp HTTP/1.0'' @ CRLF, rfile_lines = [CRLF]\<rparr> =
     Inr (''HTTP/1.0'', \<lparr>command = ''POST'', path = ''/mcp'', req_headers = [], rfile = []\<rparr>)"
    using parse_request_line [OF t m v0 read_headers_blank]
    by (simp add: self_path_def message_def CRLF_def)
  have "fst (handle \<lparr>server_address = (''127.0.0.1'', 9999)\<rparr>
          \<lparr>raw_requestline = ''POST /mcp HTTP/1.1'' @ CRLF,
           rfile_lines = [''Authorization: Bearer abc'' @ CRLF, CRLF, ''{}'']\<rparr>) =
       fst (handle \<lparr>server_address = (''127.0.0.1'', 9999)\<rparr>
          \<lparr>raw_requestline = ''POST /mcp HTTP/1.0'' @ CRLF, rfile_lines = [CRLF]\<rparr>)"
    using accepted_reply_ignores_headers_and_body [OF p1 p2]
    by (simp add: CRLF_def)
  with p1 p2 show ?thesis by blast
qed

section \<open>Path matching\<close>

text \<open>
  C10, as the specification states it: the path is matched by exact string comparison on
  the raw request target. The target \<^verbatim>\<open>//mcp\<close> is neither \<^verbatim>\<open>/mcp\<close> nor does it start
  with \<^verbatim>\<open>/mcp/\<close>, and a POST of it gets the 401 of the route: the base class has
  reduced the two slashes to one before the handler compares.
\<close>

theorem double_slash_counterexample:
  "''//mcp'' \<noteq> ''/mcp'' \<and> \<not> prefix ''/mcp/'' ''//mcp''
   \<and> map_option reply_status
     (fst (handle \<lparr>server_address = (''127.0.0.1'', 8765)\<rparr>
        \<lparr>raw_requestline = ''POST //mcp HTTP/1.1'' @ CRLF, rfile_lines = [CRLF]\<rparr>)) = Some 401"
proof -
  have m: "''POST'' \<noteq> []" "\<forall>c \<in> set ''POST''. \<not> str_isspace c"
    and t: "''//mcp'' \<noteq> []" "\<forall>c \<in> set ''//mcp''. \<not> str_isspace c"
    and v: "''HTTP/1.1'' = ''HTTP/1.0'' \<or> ''HTTP/1.1'' = ''HTTP/1.1''"
    by (simp_all add: str_isspace_def)
  have "fst (handle \<lparr>server_address = (''127.0.0.1'', 8765)\<rparr>
      \<lparr>raw_requestline = ''POST'' @ '' '' @ ''//mcp'' @ '' '' @ ''HTTP/1.1'' @ CRLF,
       rfile_lines = [CRLF]\<rparr>) =
    Some (handle_one_request \<lparr>server_address = (''127.0.0.1'', 8765)\<rparr>
      \<lparr>command = ''POST'', path = self_path ''//mcp'', req_headers = message [CRLF],
       rfile = concat []\<rparr>)"
    by (rule handle_request_line [OF t m v read_headers_blank]) (simp add: CRLF_def)
  then show ?thesis
    by (simp add: post_status self_path_def)
qed

text \<open>
  C10, amended: the path is matched by exact string comparison on \<^verbatim>\<open>self.path\<close>, which
  is the raw request target with the slashes it starts with reduced to one when there are
  two or more. For an HTTP/1.0 or HTTP/1.1 request that passes the base class, a POST
  gets 401 when \<^verbatim>\<open>self.path\<close> is \<^verbatim>\<open>/mcp\<close> or starts with \<^verbatim>\<open>/mcp/\<close> and 404
  otherwise, and a GET gets 200 when \<^verbatim>\<open>self.path\<close> is one of the two well-known paths
  and 404 otherwise. So a POST whose target starts with \<^verbatim>\<open>/mcp\<close> but is neither
  \<^verbatim>\<open>/mcp\<close> nor continues with a slash (\<^verbatim>\<open>/mcpx\<close>, \<^verbatim>\<open>/mcp?x=1\<close>) gets 404 with an
  empty body, and so does a GET of either well-known path with a slash or a query string
  appended.
\<close>

theorem path_matching_on_self_path:
  assumes "t \<noteq> []" and "\<forall>c \<in> set t. \<not> str_isspace c" and "length t \<le> 65520"
    and "v = ''HTTP/1.0'' \<or> v = ''HTTP/1.1''"
    and "read_headers [] ls = Inr (hs, rest)"
  shows
    "map_option reply_status
       (fst (handle srv \<lparr>raw_requestline = ''POST '' @ t @ '' '' @ v @ CRLF, rfile_lines = ls\<rparr>)) =
       Some (if self_path t = ''/mcp'' \<or> prefix ''/mcp/'' (self_path t) then 401 else 404)
     \<and> map_option reply_status
       (fst (handle srv \<lparr>raw_requestline = ''GET '' @ t @ '' '' @ v @ CRLF, rfile_lines = ls\<rparr>)) =
       Some (if self_path t = ''/.well-known/oauth-protected-resource/mcp'' \<or> self_path t = ''/.well-known/oauth-protected-resource'' then 200 else 404)
     \<and> (prefix ''/mcp'' t \<and> t \<noteq> ''/mcp'' \<and> \<not> prefix ''/mcp/'' t \<longrightarrow>
         fst (handle srv \<lparr>raw_requestline = ''POST '' @ t @ '' '' @ v @ CRLF, rfile_lines = ls\<rparr>) =
           Some (Reply \<lparr>status = 404, headers = [], wfile = []\<rparr>))
     \<and> ((\<exists>w \<in> {''/.well-known/oauth-protected-resource'', ''/.well-known/oauth-protected-resource/mcp''}. \<exists>q. t = w @ ''/'' \<or> t = w @ CHR ''?'' # q) \<longrightarrow>
         fst (handle srv \<lparr>raw_requestline = ''GET '' @ t @ '' '' @ v @ CRLF, rfile_lines = ls\<rparr>) =
           Some (Reply \<lparr>status = 404, headers = [], wfile = []\<rparr>))"
proof -
  have v: "length v = 8"
    using assms(4) by auto
  have post: "fst (handle srv
      \<lparr>raw_requestline = ''POST '' @ t @ '' '' @ v @ CRLF, rfile_lines = ls\<rparr>) =
    Some (handle_one_request srv
      \<lparr>command = ''POST'', path = self_path t, req_headers = message hs, rfile = concat rest\<rparr>)"
    using handle_request_line [OF assms(1,2) _ _ assms(4,5), of "''POST''" srv] assms(3) v
    by (simp add: str_isspace_def CRLF_def)
  have get: "fst (handle srv
      \<lparr>raw_requestline = ''GET '' @ t @ '' '' @ v @ CRLF, rfile_lines = ls\<rparr>) =
    Some (handle_one_request srv
      \<lparr>command = ''GET'', path = self_path t, req_headers = message hs, rfile = concat rest\<rparr>)"
    using handle_request_line [OF assms(1,2) _ _ assms(4,5), of "''GET''" srv] assms(3) v
    by (simp add: str_isspace_def CRLF_def)
  have a: "map_option reply_status
       (fst (handle srv \<lparr>raw_requestline = ''POST '' @ t @ '' '' @ v @ CRLF, rfile_lines = ls\<rparr>)) =
       Some (if self_path t = ''/mcp'' \<or> prefix ''/mcp/'' (self_path t) then 401 else 404)"
    unfolding post by (simp only: option.map post_status)
  have b: "map_option reply_status
       (fst (handle srv \<lparr>raw_requestline = ''GET '' @ t @ '' '' @ v @ CRLF, rfile_lines = ls\<rparr>)) =
       Some (if self_path t = ''/.well-known/oauth-protected-resource/mcp'' \<or> self_path t = ''/.well-known/oauth-protected-resource'' then 200 else 404)"
    unfolding get by (simp only: option.map get_status)
  have c: "fst (handle srv
        \<lparr>raw_requestline = ''POST '' @ t @ '' '' @ v @ CRLF, rfile_lines = ls\<rparr>) =
      Some (Reply \<lparr>status = 404, headers = [], wfile = []\<rparr>)"
    if "prefix ''/mcp'' t \<and> t \<noteq> ''/mcp'' \<and> \<not> prefix ''/mcp/'' t"
  proof -
    from that have "\<not> prefix ''//'' t"
      by (auto simp add: prefix_def)
    then have "self_path t = t"
      by (simp add: self_path_def)
    with that show ?thesis
      unfolding post by (simp add: handle_one_request_def do_POST_def emit_defs)
  qed
  have d: "fst (handle srv
        \<lparr>raw_requestline = ''GET '' @ t @ '' '' @ v @ CRLF, rfile_lines = ls\<rparr>) =
      Some (Reply \<lparr>status = 404, headers = [], wfile = []\<rparr>)"
    if "\<exists>w \<in> {''/.well-known/oauth-protected-resource'', ''/.well-known/oauth-protected-resource/mcp''}. \<exists>q. t = w @ ''/'' \<or> t = w @ CHR ''?'' # q"
  proof -
    from that have "\<not> prefix ''//'' t"
      by (auto simp add: prefix_def)
    then have "self_path t = t"
      by (simp add: self_path_def)
    with that show ?thesis
      unfolding get by (auto simp add: handle_one_request_def do_GET_def emit_defs)
  qed
  from a b c d show ?thesis by blast
qed

theorem path_matching_on_self_path_witness:
  "(''/mcp?x=1'' \<noteq> [] \<and> list_all (\<lambda>c. \<not> str_isspace c) ''/mcp?x=1''
      \<and> length ''/mcp?x=1'' \<le> 65520 \<and> read_headers [] [CRLF] = Inr ([CRLF], [])
      \<and> prefix ''/mcp'' ''/mcp?x=1'' \<and> ''/mcp?x=1'' \<noteq> ''/mcp''
      \<and> \<not> prefix ''/mcp/'' ''/mcp?x=1'')
   \<and> fst (handle \<lparr>server_address = (''127.0.0.1'', 8765)\<rparr>
        \<lparr>raw_requestline = ''POST /mcp?x=1 HTTP/1.1'' @ CRLF, rfile_lines = [CRLF]\<rparr>) =
       Some (Reply \<lparr>status = 404, headers = [], wfile = []\<rparr>)
   \<and> fst (handle \<lparr>server_address = (''127.0.0.1'', 8765)\<rparr>
        \<lparr>raw_requestline = ''GET /.well-known/oauth-protected-resource/ HTTP/1.1'' @ CRLF,
         rfile_lines = [CRLF]\<rparr>) =
       Some (Reply \<lparr>status = 404, headers = [], wfile = []\<rparr>)"
proof -
  have h: "read_headers [] [CRLF] = Inr ([CRLF], [])"
    by (rule read_headers_blank)
  have v: "''HTTP/1.1'' = ''HTTP/1.0'' \<or> ''HTTP/1.1'' = ''HTTP/1.1''"
    by simp
  have t: "''/mcp?x=1'' \<noteq> []" "\<forall>c \<in> set ''/mcp?x=1''. \<not> str_isspace c"
    "length ''/mcp?x=1'' \<le> 65520"
    by (simp_all add: str_isspace_def)
  have u: "''/.well-known/oauth-protected-resource'' @ ''/'' \<noteq> []" "\<forall>c \<in> set (''/.well-known/oauth-protected-resource'' @ ''/''). \<not> str_isspace c"
    "length (''/.well-known/oauth-protected-resource'' @ ''/'') \<le> 65520"
    by (simp_all add: str_isspace_def)
  have n: "prefix ''/mcp'' ''/mcp?x=1'' \<and> ''/mcp?x=1'' \<noteq> ''/mcp''
      \<and> \<not> prefix ''/mcp/'' ''/mcp?x=1''"
    by simp
  have a: "fst (handle \<lparr>server_address = (''127.0.0.1'', 8765)\<rparr>
        \<lparr>raw_requestline = ''POST /mcp?x=1 HTTP/1.1'' @ CRLF, rfile_lines = [CRLF]\<rparr>) =
       Some (Reply \<lparr>status = 404, headers = [], wfile = []\<rparr>)"
    using path_matching_on_self_path
      [OF t v h, of "\<lparr>server_address = (''127.0.0.1'', 8765)\<rparr>"] n
    by simp
  have b: "fst (handle \<lparr>server_address = (''127.0.0.1'', 8765)\<rparr>
        \<lparr>raw_requestline = ''GET /.well-known/oauth-protected-resource/ HTTP/1.1'' @ CRLF,
         rfile_lines = [CRLF]\<rparr>) =
       Some (Reply \<lparr>status = 404, headers = [], wfile = []\<rparr>)"
    using path_matching_on_self_path
      [OF u v h, of "\<lparr>server_address = (''127.0.0.1'', 8765)\<rparr>"]
    by simp
  have "list_all (\<lambda>c. \<not> str_isspace c) ''/mcp?x=1''"
    by (simp add: str_isspace_def)
  with t(1,3) h n a b show ?thesis by blast
qed


section \<open>Reading the port argument\<close>








lemma py_int_9999: "py_int (ustr ''9999'') = Inr 9999"
  by (simp add: int_eval)





section \<open>Start-up\<close>

lemma HTTPServer_bound:
  assumes "HTTPServer e s port = Inr (server, s')"
  shows "server_address server = (''127.0.0.1'', if port = 0 then int e else port)"
    and "0 < snd (server_address server)"
    and "snd (server_address server) \<le> 65535"
    and "nat (snd (server_address server)) \<in> listening s'"
    and "first_unprivileged s' \<le> nat (snd (server_address server))"
  using assms
  by (auto simp add: HTTPServer_def Let_def split: if_splits)


lemma startup_Inr:
  assumes "startup e s argv = Inr (server, banner, s')"
  obtains port where "requested_port argv = Inr port"
    and "HTTPServer e s port = Inr (server, s')"
  using assms
  by (auto simp add: startup_def split: sum.splits)












text \<open>
  C7. While one instance is bound to a port, an instance started on the same port fails
  at start-up: the bind error leaves \<^verbatim>\<open>main\<close> at once, uncaught, and nothing is tried
  again.
\<close>

theorem second_instance_fails:
  assumes "startup e l argv = Inr (server, stderr, l')"
    and "requested_port argv' = Inr (snd (server_address server))"
  shows "main e' l' argv' reqs = Inl AddressInUse"
proof -
  from assms(1) obtain port where b: "HTTPServer e l port = Inr (server, l')"
    by (rule startup_Inr)
  let ?q = "snd (server_address server)"
  from b have "0 < ?q" and "?q \<le> 65535" and "nat ?q \<in> listening l'"
    and "first_unprivileged l' \<le> nat ?q"
    by (rule HTTPServer_bound)+
  then have "HTTPServer e' l' ?q = Inl AddressInUse"
    by (simp add: HTTPServer_def)
  with assms(2) show ?thesis
    by (simp add: main_def startup_def)
qed

theorem second_instance_fails_witness:
  "startup 49152 \<lparr>listening = {}, first_unprivileged = 1024\<rparr> [ustr ''mcp_oauth_test_server.py'', ustr ''9999''] = Inr (\<lparr>server_address = (''127.0.0.1'', 9999)\<rparr>, [''Todoist-style MCP OAuth test server on http://127.0.0.1:9999'',
           ''POST /mcp -> 401 WWW-Authenticate resource_metadata=http://127.0.0.1:9999/.well-known/oauth-protected-resource/mcp''], \<lparr>listening = {9999}, first_unprivileged = 1024\<rparr>)
   \<and> requested_port [ustr ''mcp_oauth_test_server.py'', ustr ''9999''] = Inr (snd (server_address \<lparr>server_address = (''127.0.0.1'', 9999)\<rparr>))
   \<and> main 49152 \<lparr>listening = {9999}, first_unprivileged = 1024\<rparr> [ustr ''mcp_oauth_test_server.py'', ustr ''9999''] [] = Inl AddressInUse"
proof -
  have p: "requested_port [ustr ''mcp_oauth_test_server.py'', ustr ''9999''] = Inr (snd (server_address \<lparr>server_address = (''127.0.0.1'', 9999)\<rparr>))"
    by (simp add: requested_port_def py_int_9999)
  have s: "startup 49152 \<lparr>listening = {}, first_unprivileged = 1024\<rparr> [ustr ''mcp_oauth_test_server.py'', ustr ''9999''] = Inr (\<lparr>server_address = (''127.0.0.1'', 9999)\<rparr>, [''Todoist-style MCP OAuth test server on http://127.0.0.1:9999'',
           ''POST /mcp -> 401 WWW-Authenticate resource_metadata=http://127.0.0.1:9999/.well-known/oauth-protected-resource/mcp''], \<lparr>listening = {9999}, first_unprivileged = 1024\<rparr>)"
    using p by (simp add: startup_def HTTPServer_def resource_metadata_def str_int_9999)
  from second_instance_fails [OF s p, of 49152 "[]"] s p
  show ?thesis by simp
qed

end
